theory Spec2Isabelle
  imports Complex_Main "HOL-Library.Log_Nat"
begin

unbundle bit_operations_syntax

section \<open>Uniswap V3 tick and square-root-price arithmetic of pyexchange\<close>

text \<open>
  The development embeds the function bodies of \<^verbatim>\<open>pyexchange/uniswapv3_math.py\<close> and of
  the \<^verbatim>\<open>Pool\<close>/\<^verbatim>\<open>Position\<close> classes of \<^verbatim>\<open>pyexchange/uniswapv3_entities.py\<close>.
  Every \<^verbatim>\<open>raise\<close> of the Python is a value \<open>Inl e\<close> of a sum type. What is embedded is the
  body of each function as it is written; the evaluation of the modules' top level (the
  annotations \<^verbatim>\<open>Fxi\<close> and \<^verbatim>\<open>Tuple\<close>, the unfinished statement in
  \<^verbatim>\<open>max_liquidity_for_amounts\<close>) is not part of the model.

  The arithmetic of the source is that of the class \<^verbatim>\<open>Fxp\<close> of the package \<^verbatim>\<open>fxpmath\<close>,
  which is not among the sources. The bodies are embedded twice. The first embedding
  reads an \<^verbatim>\<open>Fxp\<close> as an exact integer; it says what the statements compute on the
  arithmetic that the specification prescribes, and it is where the slips of the source
  show (the comparison of \<^verbatim>\<open>msb\<close>, the rounding step). The second embedding, further
  down, takes every operation of \<^verbatim>\<open>Fxp\<close> as a parameter and is a statement about the
  code on any implementation of them; with exact integer operations it is the first.
\<close>

subsection \<open>Errors\<close>

datatype error =
    AssertionError
  | NameError string
  | AttributeError string
  | TypeError
  | ValueError
  | DivisionByZero

definition bind :: "error + 'a \<Rightarrow> ('a \<Rightarrow> error + 'b) \<Rightarrow> error + 'b" where
  "bind m f = (case m of Inl e \<Rightarrow> Inl e | Inr v \<Rightarrow> f v)"

subsection \<open>The fixed-point integer type\<close>

text \<open>
  Modelled from the spec: the class \<^verbatim>\<open>Fxp\<close> comes from the package \<^verbatim>\<open>fxpmath\<close>, which is
  not among the sources. Section 4.1 of the specification prescribes an integer type
  with multiplication producing the full product, division with floor semantics, modulo,
  shifts by a non-negative count and bitwise AND/OR, where a zero denominator fails with
  \<^verbatim>\<open>DivisionByZero\<close>. In this reading an \<^verbatim>\<open>Fxp\<close> value is an \<open>int\<close>; the products, sums
  and bitwise operations are those of \<open>int\<close>, and the partial operations are the four
  below. A shift by a negative count is outside the contract of the specification; it
  fails the way it does on Python's own integers (\<^verbatim>\<open>ValueError: negative shift count\<close>).
  This is the arithmetic the source is written for, not a description of \<^verbatim>\<open>fxpmath\<close>:
  the operator \<^verbatim>\<open>/\<close> of the source is true division, and \<^verbatim>\<open>fxpmath\<close> sizes and
  saturates its values.
\<close>

type_synonym Fxp = int

definition fxp_div :: "Fxp \<Rightarrow> Fxp \<Rightarrow> error + Fxp" where
  "fxp_div a b = (if b = 0 then Inl DivisionByZero else Inr (a div b))"

definition fxp_mod :: "Fxp \<Rightarrow> Fxp \<Rightarrow> error + Fxp" where
  "fxp_mod a b = (if b = 0 then Inl DivisionByZero else Inr (a mod b))"

definition fxp_lshift :: "Fxp \<Rightarrow> int \<Rightarrow> error + Fxp" where
  "fxp_lshift a n = (if n < 0 then Inl ValueError else Inr (push_bit (nat n) a))"

definition fxp_rshift :: "Fxp \<Rightarrow> int \<Rightarrow> error + Fxp" where
  "fxp_rshift a n = (if n < 0 then Inl ValueError else Inr (drop_bit (nat n) a))"

subsection \<open>Constants of \<^verbatim>\<open>uniswapv3_math.py\<close>\<close>

definition MIN_TICK :: int where "MIN_TICK = - 887272"
definition MAX_TICK :: int where "MAX_TICK = 887272"
definition MIN_SQRT_RATIO :: Fxp where "MIN_SQRT_RATIO = 4295128739"
definition MAX_SQRT_RATIO :: Fxp where
  "MAX_SQRT_RATIO = 1461446703485210103287273052203988822378723970342"
definition MAX_UINT256 :: Fxp where
  "MAX_UINT256 = 0xffffffffffffffffffffffffffffffffffffffffffffffffffffffffffffffff"
definition ZERO :: Fxp where "ZERO = 0"
definition ONE :: Fxp where "ONE = 1"
definition Q96 :: Fxp where "Q96 = 2 ^ 96"
definition Q192 :: Fxp where "Q192 = Q96 ^ 2"

subsection \<open>Tick to square-root price\<close>

text \<open>
  \<^verbatim>\<open>mul_shift\<close>: \<^verbatim>\<open>value * Fxp(multiply_by) >> Fxp(128)\<close>. The second argument is the
  integer that the hexadecimal string denotes.
\<close>

definition mul_shift :: "Fxp \<Rightarrow> Fxp \<Rightarrow> Fxp" where
  "mul_shift v multiply_by = drop_bit 128 (v * multiply_by)"

text \<open>
  Lines 77 to 116 of \<^verbatim>\<open>get_sqrt_ratio_at_tick\<close>: the accumulator after the twenty tests
  of the bits of \<^verbatim>\<open>abs_tick\<close>, in the order of the source.
\<close>

definition ratio_ladder :: "Fxp \<Rightarrow> Fxp" where
  "ratio_ladder abs_tick =
    (let ratio = (if abs_tick AND 0x1 \<noteq> 0 then 0xfffcb933bd6fad37aa2d162d1a594001
                  else 0x100000000000000000000000000000000);
         ratio = (if abs_tick AND 0x2 \<noteq> 0
                  then mul_shift ratio 0xfff97272373d413259a46990580e213a else ratio);
         ratio = (if abs_tick AND 0x4 \<noteq> 0
                  then mul_shift ratio 0xfff2e50f5f656932ef12357cf3c7fdcc else ratio);
         ratio = (if abs_tick AND 0x8 \<noteq> 0
                  then mul_shift ratio 0xffe5caca7e10e4e61c3624eaa0941cd0 else ratio);
         ratio = (if abs_tick AND 0x10 \<noteq> 0
                  then mul_shift ratio 0xffcb9843d60f6159c9db58835c926644 else ratio);
         ratio = (if abs_tick AND 0x20 \<noteq> 0
                  then mul_shift ratio 0xff973b41fa98c081472e6896dfb254c0 else ratio);
         ratio = (if abs_tick AND 0x40 \<noteq> 0
                  then mul_shift ratio 0xff2ea16466c96a3843ec78b326b52861 else ratio);
         ratio = (if abs_tick AND 0x80 \<noteq> 0
                  then mul_shift ratio 0xfe5dee046a99a2a811c461f1969c3053 else ratio);
         ratio = (if abs_tick AND 0x100 \<noteq> 0
                  then mul_shift ratio 0xfcbe86c7900a88aedcffc83b479aa3a4 else ratio);
         ratio = (if abs_tick AND 0x200 \<noteq> 0
                  then mul_shift ratio 0xf987a7253ac413176f2b074cf7815e54 else ratio);
         ratio = (if abs_tick AND 0x400 \<noteq> 0
                  then mul_shift ratio 0xf3392b0822b70005940c7a398e4b70f3 else ratio);
         ratio = (if abs_tick AND 0x800 \<noteq> 0
                  then mul_shift ratio 0xe7159475a2c29b7443b29c7fa6e889d9 else ratio);
         ratio = (if abs_tick AND 0x1000 \<noteq> 0
                  then mul_shift ratio 0xd097f3bdfd2022b8845ad8f792aa5825 else ratio);
         ratio = (if abs_tick AND 0x2000 \<noteq> 0
                  then mul_shift ratio 0xa9f746462d870fdf8a65dc1f90e061e5 else ratio);
         ratio = (if abs_tick AND 0x4000 \<noteq> 0
                  then mul_shift ratio 0x70d869a156d2a1b890bb3df62baf32f7 else ratio);
         ratio = (if abs_tick AND 0x8000 \<noteq> 0
                  then mul_shift ratio 0x31be135f97d08fd981231505542fcfa6 else ratio);
         ratio = (if abs_tick AND 0x10000 \<noteq> 0
                  then mul_shift ratio 0x9aa508b5b7a84e1c677de54f3e99bc9 else ratio);
         ratio = (if abs_tick AND 0x20000 \<noteq> 0
                  then mul_shift ratio 0x5d6af8dedb81196699c329225ee604 else ratio);
         ratio = (if abs_tick AND 0x40000 \<noteq> 0
                  then mul_shift ratio 0x2216e584f5fa1ea926041bedfe98 else ratio);
         ratio = (if abs_tick AND 0x80000 \<noteq> 0
                  then mul_shift ratio 0x48a170391f7dc42444e8fa2 else ratio)
     in ratio)"

text \<open>
  \<^verbatim>\<open>get_sqrt_ratio_at_tick\<close>. The function tests no bound on \<^verbatim>\<open>tick\<close>. Both branches of
  the last conditional return \<^verbatim>\<open>ratio / q32\<close>: the first adds \<^verbatim>\<open>ZERO\<close> to it.
\<close>

definition get_sqrt_ratio_at_tick :: "Fxp \<Rightarrow> error + Fxp" where
  "get_sqrt_ratio_at_tick tick =
    (let abs_tick = (if tick < 0 then tick * - 1 else tick);
         ratio = ratio_ladder abs_tick
     in bind (if tick > 0 then fxp_div MAX_UINT256 ratio else Inr ratio) (\<lambda>ratio.
        let q32 = 2 ^ 32
        in bind (fxp_mod ratio q32) (\<lambda>m.
           if m \<ge> ZERO then bind (fxp_div ratio q32) (\<lambda>d. Inr (d + ZERO))
           else fxp_div ratio q32)))"

subsection \<open>Square-root price to tick\<close>

text \<open>
  \<^verbatim>\<open>most_significant_bit\<close> is \<^verbatim>\<open>int(math.log(x, 2))\<close>: the integer part of the binary
  logarithm, computed here on the integer itself (\<open>floor_log2_log\<close> below relates it to
  the real logarithm; the rounding of the floating-point \<^verbatim>\<open>math.log\<close> is not part of the
  model). \<^verbatim>\<open>math.log\<close> raises \<^verbatim>\<open>ValueError\<close> on an argument that is not positive.
\<close>

function floor_log2 :: "int \<Rightarrow> int" where
  "floor_log2 x = (if x < 2 then 0 else 1 + floor_log2 (x div 2))"
  by auto
termination
  by (relation "measure nat") auto

declare floor_log2.simps [simp del]

definition most_significant_bit :: "Fxp \<Rightarrow> error + int" where
  "most_significant_bit x = (if x \<le> 0 then Inl ValueError else Inr (floor_log2 x))"

text \<open>
  The body of the loop \<^verbatim>\<open>for i in range(14)\<close> of \<^verbatim>\<open>get_tick_at_sqrt_ratio\<close>, run over the
  list of the values of \<^verbatim>\<open>i\<close>. The count of \<^verbatim>\<open>r >> f\<close> is a computed value, so that shift
  is the checked one.
\<close>

fun log2_loop :: "nat list \<Rightarrow> Fxp \<Rightarrow> int \<Rightarrow> error + (Fxp \<times> int)" where
  "log2_loop [] r log_2 = Inr (r, log_2)"
| "log2_loop (i # is) r log_2 =
    (let r = drop_bit 127 (r * r);
         f = drop_bit 128 r;
         log_2 = log_2 OR push_bit (63 - i) f
     in bind (fxp_rshift r f) (\<lambda>r. log2_loop is r log_2))"

text \<open>
  \<^verbatim>\<open>get_tick_at_sqrt_ratio\<close>. The test on \<^verbatim>\<open>msb\<close> is \<^verbatim>\<open>msb > Fxp(128)\<close>, so that
  \<^verbatim>\<open>msb = 128\<close> takes the branch that shifts left by \<^verbatim>\<open>127 - msb\<close>. The calls of
  \<^verbatim>\<open>print\<close> are left out.
\<close>

definition get_tick_at_sqrt_ratio :: "Fxp \<Rightarrow> error + int" where
  "get_tick_at_sqrt_ratio sqrtRatioX96 =
    (let square_root_ratio_x128 = push_bit 32 sqrtRatioX96
     in bind (most_significant_bit square_root_ratio_x128) (\<lambda>msb.
        bind (if msb > 128 then fxp_rshift square_root_ratio_x128 (msb - 127)
              else fxp_lshift square_root_ratio_x128 (127 - msb)) (\<lambda>r.
        let log_2 = push_bit 64 (msb - 128)
        in bind (log2_loop [0..<14] r log_2) (\<lambda>(r, log_2).
           let log_sqrt10001 = log_2 * 255738958999603826347141;
               tick_low = drop_bit 128 (log_sqrt10001 - 3402992956809132418596140100660247210);
               tick_high = drop_bit 128 (log_sqrt10001 + 291339464771989622907027621153398088495)
           in if tick_low = tick_high then Inr tick_low
              else bind (get_sqrt_ratio_at_tick tick_high) (\<lambda>v.
                   if v \<le> sqrtRatioX96 then Inr tick_high else Inr tick_low)))))"

subsection \<open>Rounding division\<close>

definition mul_div_rounding_up :: "Fxp \<Rightarrow> Fxp \<Rightarrow> Fxp \<Rightarrow> error + Fxp" where
  "mul_div_rounding_up a b denominator =
    (let product = a * b
     in bind (fxp_div product denominator) (\<lambda>result.
        bind (fxp_mod product denominator) (\<lambda>m.
        if m \<noteq> ZERO then Inr (result + ONE) else Inr result)))"

section \<open>Sqrt-price math and the entities\<close>

subsection \<open>Python values\<close>

text \<open>
  The classes whose instances the embedded bodies pass around: \<^verbatim>\<open>None\<close>, \<^verbatim>\<open>int\<close>,
  \<^verbatim>\<open>float\<close> (idealised as \<open>real\<close>), \<^verbatim>\<open>Fxp\<close>, \<^verbatim>\<open>Wad\<close> (its \<^verbatim>\<open>value\<close>), \<^verbatim>\<open>Token\<close>
  (its address), lists, dictionaries with string keys, and \<^verbatim>\<open>Pool\<close>. The fields of a
  \<^verbatim>\<open>Pool\<close> are those that \<^verbatim>\<open>Pool.__init__\<close> assigns; the two prices are \<open>None\<close> until
  they are assigned. \<^verbatim>\<open>PriceFraction.__init__\<close> takes the denominator before the
  numerator.

  An assertion \<^verbatim>\<open>assert isinstance(v, C)\<close> is the function \<open>assert_C\<close>: it gives the
  payload of a value of class \<^verbatim>\<open>C\<close> and fails with \<^verbatim>\<open>AssertionError\<close> on a value of any
  other class. The functions of \<^verbatim>\<open>uniswapv3_math.py\<close> above are their bodies on arguments
  that pass the assertions; a call with values of any class is the function with the
  suffix \<open>_call\<close>: the assertions in the order of the source, then the body.
\<close>

datatype Token = Token string

record PriceFraction =
  base_token :: Token
  quote_token :: Token
  numerator :: int
  denominator :: int

datatype pyval =
    PNone
  | PInt int
  | PFloat real
  | PFxp Fxp
  | PWad int
  | PToken Token
  | PList "pyval list"
  | PDict "(string \<times> pyval) list"
  | PPool Pool
and Pool =
  Pool (token_0: Token) (token_1: Token) (fee: int) (square_root_ratio_x96: Fxp)
       (pool_liquidity: int) (tick_current: int) (ticks: "pyval list")
       (token_0_price: "PriceFraction option") (token_1_price: "PriceFraction option")

definition assert_Token :: "pyval \<Rightarrow> error + Token" where
  "assert_Token v = (case v of PToken t \<Rightarrow> Inr t | _ \<Rightarrow> Inl AssertionError)"

definition assert_int :: "pyval \<Rightarrow> error + int" where
  "assert_int v = (case v of PInt i \<Rightarrow> Inr i | _ \<Rightarrow> Inl AssertionError)"

definition assert_Fxp :: "pyval \<Rightarrow> error + Fxp" where
  "assert_Fxp v = (case v of PFxp x \<Rightarrow> Inr x | _ \<Rightarrow> Inl AssertionError)"

definition assert_Wad :: "pyval \<Rightarrow> error + int" where
  "assert_Wad v = (case v of PWad w \<Rightarrow> Inr w | _ \<Rightarrow> Inl AssertionError)"

definition assert_List :: "pyval \<Rightarrow> error + pyval list" where
  "assert_List v = (case v of PList xs \<Rightarrow> Inr xs | _ \<Rightarrow> Inl AssertionError)"

definition assert_Pool :: "pyval \<Rightarrow> error + Pool" where
  "assert_Pool v = (case v of PPool p \<Rightarrow> Inr p | _ \<Rightarrow> Inl AssertionError)"

definition get_sqrt_ratio_at_tick_call :: "pyval \<Rightarrow> error + Fxp" where
  "get_sqrt_ratio_at_tick_call tick = bind (assert_Fxp tick) get_sqrt_ratio_at_tick"

definition mul_div_rounding_up_call :: "pyval \<Rightarrow> pyval \<Rightarrow> pyval \<Rightarrow> error + Fxp" where
  "mul_div_rounding_up_call a b d =
    bind (assert_Fxp a) (\<lambda>a. bind (assert_Fxp b) (\<lambda>b. bind (assert_Fxp d) (\<lambda>d.
      mul_div_rounding_up a b d)))"

subsection \<open>Amount deltas\<close>

text \<open>
  \<^verbatim>\<open>SqrtPriceMath.invert_ratio_if_needed\<close> exchanges its two local variables when the first
  exceeds the second and ends without a \<^verbatim>\<open>return\<close>: the value of every call is \<^verbatim>\<open>None\<close>.
\<close>

definition invert_ratio_if_needed :: "Fxp \<Rightarrow> Fxp \<Rightarrow> (Fxp \<times> Fxp) option" where
  "invert_ratio_if_needed sqrtRatioAX96 sqrtRatioBX96 =
    (let (sqrtRatioAX96, sqrtRatioBX96) =
           (if sqrtRatioAX96 > sqrtRatioBX96 then (sqrtRatioBX96, sqrtRatioAX96)
            else (sqrtRatioAX96, sqrtRatioBX96))
     in None)"

text \<open>
  \<^verbatim>\<open>get_amount_0_delta\<close> and \<^verbatim>\<open>get_amount_1_delta\<close> unpack the value of
  \<^verbatim>\<open>invert_ratio_if_needed\<close> into two variables; unpacking \<^verbatim>\<open>None\<close> raises
  \<^verbatim>\<open>TypeError\<close>. The statements after it follow the source: \<^verbatim>\<open>liquidity.value << 96\<close> is a
  Python \<^verbatim>\<open>int\<close>, and \<^verbatim>\<open>mul_div_rounding_up\<close> is called with the classes the source
  passes. The product of a \<^verbatim>\<open>Wad\<close> and an \<^verbatim>\<open>Fxp\<close> in the last line of
  \<^verbatim>\<open>get_amount_1_delta\<close> is the product of the integers (section 4.3 of the
  specification: the floor equivalent).
\<close>

definition get_amount_0_delta :: "Fxp \<Rightarrow> Fxp \<Rightarrow> int \<Rightarrow> bool \<Rightarrow> error + Fxp" where
  "get_amount_0_delta sqrtRatioAX96 sqrtRatioBX96 liquidity round_up =
    (case invert_ratio_if_needed sqrtRatioAX96 sqrtRatioBX96 of
       None \<Rightarrow> Inl TypeError
     | Some (sqrtRatioAX96, sqrtRatioBX96) \<Rightarrow>
        (let numerator_1 = push_bit 96 liquidity;
             numerator_2 = sqrtRatioBX96 - sqrtRatioAX96
         in if round_up then
              bind (mul_div_rounding_up_call (PInt numerator_1) (PFxp numerator_2)
                      (PFxp sqrtRatioBX96)) (\<lambda>x.
              mul_div_rounding_up_call (PFxp x) (PFxp ONE) (PFxp sqrtRatioAX96))
            else
              bind (fxp_div (numerator_1 * numerator_2) sqrtRatioBX96) (\<lambda>x.
              fxp_div x sqrtRatioAX96)))"

definition get_amount_1_delta :: "Fxp \<Rightarrow> Fxp \<Rightarrow> int \<Rightarrow> bool \<Rightarrow> error + Fxp" where
  "get_amount_1_delta sqrtRatioAX96 sqrtRatioBX96 liquidity round_up =
    (case invert_ratio_if_needed sqrtRatioAX96 sqrtRatioBX96 of
       None \<Rightarrow> Inl TypeError
     | Some (sqrtRatioAX96, sqrtRatioBX96) \<Rightarrow>
        (if round_up then
           mul_div_rounding_up_call (PWad liquidity) (PFxp (sqrtRatioBX96 - sqrtRatioAX96))
             (PFxp Q96)
         else fxp_div (liquidity * (sqrtRatioBX96 - sqrtRatioAX96)) Q96))"

definition get_amount_0_delta_call :: "pyval \<Rightarrow> pyval \<Rightarrow> pyval \<Rightarrow> bool \<Rightarrow> error + Fxp" where
  "get_amount_0_delta_call a b liquidity round_up =
    bind (assert_Fxp a) (\<lambda>a. bind (assert_Fxp b) (\<lambda>b. bind (assert_Wad liquidity) (\<lambda>l.
      get_amount_0_delta a b l round_up)))"

subsection \<open>Names of the module \<^verbatim>\<open>uniswapv3_entities\<close>\<close>

text \<open>
  A global name read by a function body of \<^verbatim>\<open>uniswapv3_entities.py\<close> resolves against
  the names that the module binds, which are its imports and its classes (none of the
  names looked up below is a builtin). \<open>entities_name n referent\<close> is the referent when
  \<open>n\<close> is bound and \<^verbatim>\<open>NameError\<close> otherwise. Names that the bodies read and the module
  binds (\<^verbatim>\<open>SqrtPriceMath\<close>, \<^verbatim>\<open>get_sqrt_ratio_at_tick\<close>, \<^verbatim>\<open>PriceFraction\<close>, \<^verbatim>\<open>Wad\<close>) are used
  directly. For a name that the module does not bind, the referent written is the object
  of that name in \<^verbatim>\<open>uniswapv3_math.py\<close> or in the class at hand.
\<close>

definition entities_globals :: "string list" where
  "entities_globals =
    [''time'', ''Fxp'', ''List'', ''Optional'', ''Tuple'', ''Web3'',
     ''get_sqrt_ratio_at_tick'', ''SqrtPriceMath'',
     ''Address'', ''Calldata'', ''Invocation'', ''Token'', ''Wad'',
     ''bytes_to_int'', ''bytes_to_hexstring'',
     ''PriceFraction'', ''Pool'', ''Position'', ''Params'', ''MintParams'', ''CollectParams'']"

definition entities_name :: "string \<Rightarrow> (error + 'a) \<Rightarrow> error + 'a" where
  "entities_name n referent = (if n \<in> set entities_globals then referent else Inl (NameError n))"

subsection \<open>PriceFraction and Pool\<close>

definition PriceFraction_init :: "Token \<Rightarrow> Token \<Rightarrow> int \<Rightarrow> int \<Rightarrow> PriceFraction" where
  "PriceFraction_init base quote denom numer =
     \<lparr>base_token = base, quote_token = quote, numerator = numer, denominator = denom\<rparr>"

definition get_float_price :: "PriceFraction \<Rightarrow> error + real" where
  "get_float_price self =
    entities_name ''numerator'' (entities_name ''denominator''
      (if denominator self = 0 then Inl DivisionByZero
       else Inr (real_of_int (numerator self) / real_of_int (denominator self))))"

text \<open>
  \<^verbatim>\<open>Pool.get_token_0_price\<close> and \<^verbatim>\<open>Pool.get_token_1_price\<close> read the global \<^verbatim>\<open>Q192\<close>.
\<close>

definition get_token_0_price :: "Pool \<Rightarrow> error + PriceFraction" where
  "get_token_0_price self =
    bind (entities_name ''Q192'' (Inr Q192)) (\<lambda>q192.
      Inr (PriceFraction_init (token_0 self) (token_1 self) q192
             (square_root_ratio_x96 self * square_root_ratio_x96 self)))"

definition get_token_1_price :: "Pool \<Rightarrow> error + PriceFraction" where
  "get_token_1_price self =
    bind (entities_name ''Q192'' (Inr Q192)) (\<lambda>q192.
      Inr (PriceFraction_init (token_0 self) (token_1 self)
             (square_root_ratio_x96 self * square_root_ratio_x96 self) q192))"

text \<open>
  \<^verbatim>\<open>Pool.__init__\<close>: the seven assertions, the seven assignments, and two calls of the
  global name \<^verbatim>\<open>get_token_1_price\<close>, whose results it assigns to the two prices.
\<close>

definition Pool_init ::
  "pyval \<Rightarrow> pyval \<Rightarrow> pyval \<Rightarrow> pyval \<Rightarrow> pyval \<Rightarrow> pyval \<Rightarrow> pyval \<Rightarrow> error + Pool" where
  "Pool_init token_0' token_1' fee' square_root_ratio_x96' liquidity' tick_current' ticks' =
    bind (assert_Token token_0') (\<lambda>t0.
    bind (assert_Token token_1') (\<lambda>t1.
    bind (assert_int fee') (\<lambda>fee.
    bind (assert_Fxp square_root_ratio_x96') (\<lambda>sq.
    bind (assert_Wad liquidity') (\<lambda>liq.
    bind (assert_int tick_current') (\<lambda>tc.
    bind (assert_List ticks') (\<lambda>ts.
    let self = Pool t0 t1 fee sq liq tc ts None None
    in bind (entities_name ''get_token_1_price'' (get_token_1_price self)) (\<lambda>p0.
       let self = Pool t0 t1 fee sq liq tc ts (Some p0) None
       in bind (entities_name ''get_token_1_price'' (get_token_1_price self)) (\<lambda>p1.
          Inr (Pool t0 t1 fee sq liq tc ts (Some p0) (Some p1)))))))))))"

subsection \<open>Position\<close>

text \<open>
  The fields are those that \<^verbatim>\<open>Position.__init__\<close> assigns; \<open>mint_amounts_attr\<close> is the
  instance attribute \<^verbatim>\<open>mint_amounts\<close>, which it sets to \<^verbatim>\<open>None\<close>.
\<close>

record Position =
  pool :: Pool
  tick_lower :: int
  tick_upper :: int
  liquidity :: int
  token_0_amount :: pyval
  token_1_amount :: pyval
  mint_amounts_attr :: pyval

definition Position_init :: "pyval \<Rightarrow> pyval \<Rightarrow> pyval \<Rightarrow> pyval \<Rightarrow> error + Position" where
  "Position_init pool' tick_lower' tick_upper' liquidity' =
    bind (assert_Pool pool') (\<lambda>p.
    bind (assert_int tick_lower') (\<lambda>tl.
    bind (assert_int tick_upper') (\<lambda>tu.
    bind (assert_int liquidity') (\<lambda>l.
    Inr \<lparr>pool = p, tick_lower = tl, tick_upper = tu, liquidity = l,
         token_0_amount = PNone, token_1_amount = PNone, mint_amounts_attr = PNone\<rparr>))))"

text \<open>
  The attributes of a \<^verbatim>\<open>Position\<close>: those of the instance and the methods of the class.
  \<open>Position_attribute n referent\<close> is the referent when the object has the attribute and
  \<^verbatim>\<open>AttributeError\<close> otherwise.
\<close>

definition Position_attributes :: "string list" where
  "Position_attributes =
    [''pool'', ''tick_lower'', ''tick_upper'', ''liquidity'',
     ''token_0_amount'', ''token_1_amount'', ''mint_amounts'',
     ''get_token_0_price_lower'', ''get_token_0_price_upper'', ''amount_in_token_0'',
     ''amount_in_token_1'', ''max_liquidity_for_amounts'', ''from_amounts'',
     ''_ratios_after_slippage'', ''mint_amounts_with_slippage'', ''as_NFT'']"

definition Position_attribute :: "string \<Rightarrow> (error + 'a) \<Rightarrow> error + 'a" where
  "Position_attribute n referent =
    (if n \<in> set Position_attributes then referent else Inl (AttributeError n))"

text \<open>
  \<^verbatim>\<open>Position.amount_in_token_0\<close> stores the amount in the object and returns nothing; the
  model returns the object. The branch below the range and the branch within the range
  are the same call: both pass the ratios of \<^verbatim>\<open>tick_lower\<close> and \<^verbatim>\<open>tick_upper\<close>, the
  integers of the position, and its integer \<^verbatim>\<open>liquidity\<close>.
\<close>

definition amount_in_token_0 :: "Position \<Rightarrow> error + Position" where
  "amount_in_token_0 self =
    (if token_0_amount self = PNone then
       if tick_current (pool self) < tick_lower self then
         bind (get_sqrt_ratio_at_tick_call (PInt (tick_lower self))) (\<lambda>a.
         bind (get_sqrt_ratio_at_tick_call (PInt (tick_upper self))) (\<lambda>b.
         bind (get_amount_0_delta_call (PFxp a) (PFxp b) (PInt (liquidity self)) False) (\<lambda>v.
         Inr (self\<lparr>token_0_amount := PFxp v\<rparr>))))
       else if tick_current (pool self) < tick_upper self then
         bind (get_sqrt_ratio_at_tick_call (PInt (tick_lower self))) (\<lambda>a.
         bind (get_sqrt_ratio_at_tick_call (PInt (tick_upper self))) (\<lambda>b.
         bind (get_amount_0_delta_call (PFxp a) (PFxp b) (PInt (liquidity self)) False) (\<lambda>v.
         Inr (self\<lparr>token_0_amount := PFxp v\<rparr>))))
       else Inr (self\<lparr>token_0_amount := PWad 0\<rparr>)
     else Inr self)"

text \<open>
  \<^verbatim>\<open>Position.mint_amounts\<close> reads \<^verbatim>\<open>self._mint_amount\<close>. Within and above the range it
  calls \<^verbatim>\<open>get_amount_0_delta\<close> and \<^verbatim>\<open>get_amount_1_delta\<close> without arguments, which raises
  \<^verbatim>\<open>TypeError\<close>.
\<close>

definition mint_amounts :: "Position \<Rightarrow> error + pyval" where
  "mint_amounts self =
    bind (Position_attribute ''_mint_amount'' (Inr (mint_amounts_attr self))) (\<lambda>m.
    if m = PNone then
      if tick_current (pool self) < tick_lower self then
        bind (get_sqrt_ratio_at_tick_call (PInt (tick_lower self))) (\<lambda>a.
        bind (get_sqrt_ratio_at_tick_call (PInt (tick_upper self))) (\<lambda>b.
        bind (get_amount_0_delta_call (PFxp a) (PFxp b) (PInt (liquidity self)) True) (\<lambda>v.
        Inr (PDict [(''amount0'', PFxp v), (''amount1'', PInt 0)]))))
      else if tick_current (pool self) < tick_upper self then
        bind (Inl TypeError) (\<lambda>v0.
        bind (Inl TypeError) (\<lambda>v1.
        Inr (PDict [(''amount0'', v0), (''amount1'', v1)])))
      else
        bind (Inl TypeError) (\<lambda>v1.
        Inr (PDict [(''amount0'', PInt 0), (''amount1'', v1)]))
    else Inr m)"

subsection \<open>Slippage bounds\<close>

text \<open>
  A \<^verbatim>\<open>float\<close> has the data attributes \<^verbatim>\<open>real\<close> and \<^verbatim>\<open>imag\<close>; its methods are not values of
  the model, and it has no \<^verbatim>\<open>numerator\<close> and no \<^verbatim>\<open>denominator\<close>.
\<close>

definition float_attribute :: "real \<Rightarrow> string \<Rightarrow> error + pyval" where
  "float_attribute x n =
    (if n = ''real'' then Inr (PFloat x)
     else if n = ''imag'' then Inr (PFloat 0)
     else Inl (AttributeError n))"

text \<open>
  \<^verbatim>\<open>encodeSqrtRatioX96\<close>: the two assertions and the shift by 196. The last two lines,
  \<^verbatim>\<open>Fxp(math.sqrt(numerator / amount_0), dtype='Q64.96')\<close>, are floating-point division and
  square root and a conversion of \<^verbatim>\<open>fxpmath\<close>; they are the parameter \<open>sqrt_as_Fxp\<close>.
\<close>

definition encodeSqrtRatioX96 ::
  "(int \<Rightarrow> int \<Rightarrow> error + Fxp) \<Rightarrow> pyval \<Rightarrow> pyval \<Rightarrow> error + Fxp" where
  "encodeSqrtRatioX96 sqrt_as_Fxp amount_1 amount_0 =
    bind (assert_int amount_1) (\<lambda>a1.
    bind (assert_int amount_0) (\<lambda>a0.
    let numerator = push_bit 196 a1
    in sqrt_as_Fxp numerator a0))"

text \<open>
  \<^verbatim>\<open>Position._ratios_after_slippage\<close>. The name of a called function is evaluated before
  its arguments.
\<close>

definition ratios_after_slippage ::
  "(int \<Rightarrow> int \<Rightarrow> error + Fxp) \<Rightarrow> Position \<Rightarrow> real \<Rightarrow> error + (Fxp \<times> Fxp)" where
  "ratios_after_slippage sqrt_as_Fxp self slippage_tolerance =
    (if \<not> (slippage_tolerance < 1 \<and> slippage_tolerance > 0) then Inl AssertionError
     else
       bind (get_token_0_price (pool self)) (\<lambda>p.
       bind (get_float_price p) (\<lambda>f.
       let price_lower = f * (1 - slippage_tolerance)
       in bind (get_token_0_price (pool self)) (\<lambda>p.
       bind (get_float_price p) (\<lambda>f.
       let price_upper = f * (1 + slippage_tolerance)
       in bind (entities_name ''encodeSqrtRatioX96''
                 (bind (float_attribute price_lower ''numerator'') (\<lambda>n.
                  bind (float_attribute price_lower ''denominator'') (\<lambda>d.
                  encodeSqrtRatioX96 sqrt_as_Fxp n d)))) (\<lambda>sqrtRatioX96Lower.
       bind (entities_name ''MIN_SQRT_RATIO'' (Inr MIN_SQRT_RATIO)) (\<lambda>lo.
       bind (if sqrtRatioX96Lower < lo
             then bind (entities_name ''MIN_SQRT_RATIO'' (Inr MIN_SQRT_RATIO)) (\<lambda>lo. Inr (lo + 1))
             else Inr sqrtRatioX96Lower) (\<lambda>sqrtRatioX96Lower.
       bind (entities_name ''encodeSqrtRatioX96''
                 (bind (float_attribute price_upper ''numerator'') (\<lambda>n.
                  bind (float_attribute price_upper ''denominator'') (\<lambda>d.
                  encodeSqrtRatioX96 sqrt_as_Fxp n d)))) (\<lambda>sqrtRatioX96Upper.
       bind (entities_name ''MAX_SQRT_RATIO'' (Inr MAX_SQRT_RATIO)) (\<lambda>hi.
       bind (if sqrtRatioX96Upper > hi
             then bind (entities_name ''MAX_SQRT_RATIO'' (Inr MAX_SQRT_RATIO)) (\<lambda>hi. Inr (hi - 1))
             else Inr sqrtRatioX96Upper) (\<lambda>sqrtRatioX96Upper.
       Inr (sqrtRatioX96Lower, sqrtRatioX96Upper))))))))))))"

subsection \<open>A pool and a position\<close>

text \<open>
  The position of the test suite, \<^verbatim>\<open>Position(pool, -10, 10, 1)\<close> over a pool at tick 0
  and price 1.
\<close>

definition example_pool :: Pool where
  "example_pool =
     Pool (Token ''DAI'') (Token ''USDC'') 500 (2 ^ 96) 0 0 [] None None"

definition example_position :: Position where
  "example_position =
     \<lparr>pool = example_pool, tick_lower = - 10, tick_upper = 10, liquidity = 1,
      token_0_amount = PNone, token_1_amount = PNone, mint_amounts_attr = PNone\<rparr>"

section \<open>The tick ladder over the operations of fxpmath\<close>

text \<open>
  Modelled from the spec: \<^verbatim>\<open>DomainError\<close> is the failure that sections 4 and 7 of the
  specification name for a tick outside its bounds, with the violated bound. The source
  defines no such exception. \<open>Raised x\<close> is an exception \<open>x\<close> raised inside an operation
  of \<^verbatim>\<open>fxpmath\<close>.
\<close>

datatype 'x failure = DomainError int | Raised 'x

text \<open>
  The operations of \<^verbatim>\<open>Fxp\<close> that \<^verbatim>\<open>mul_shift\<close> and \<^verbatim>\<open>get_sqrt_ratio_at_tick\<close> use, each of
  which returns or raises: the constructor on an \<^verbatim>\<open>int\<close>, on a string and on an \<^verbatim>\<open>Fxp\<close>;
  \<^verbatim>\<open>*\<close> with an \<^verbatim>\<open>int\<close> and with an \<^verbatim>\<open>Fxp\<close>; \<^verbatim>\<open>/\<close>, \<^verbatim>\<open>%\<close>, \<^verbatim>\<open>>>\<close>, \<^verbatim>\<open>&\<close> and \<^verbatim>\<open>+\<close>; the
  comparisons \<^verbatim>\<open><\<close>, \<^verbatim>\<open>>\<close> and \<^verbatim>\<open>!=\<close> with an \<^verbatim>\<open>int\<close> and \<^verbatim>\<open>>=\<close> with an \<^verbatim>\<open>Fxp\<close>, read as the
  truth value that the conditional takes; and the module constants \<^verbatim>\<open>MAX_UINT256\<close> and
  \<^verbatim>\<open>ZERO\<close>. The assertions \<^verbatim>\<open>isinstance(tick, Fxp)\<close> are the type \<open>'v\<close> of the argument.
\<close>

record ('v, 'x) fxpmath =
  F_int :: "int \<Rightarrow> 'x + 'v"
  F_str :: "string \<Rightarrow> 'x + 'v"
  F_copy :: "'v \<Rightarrow> 'x + 'v"
  F_mul_int :: "'v \<Rightarrow> int \<Rightarrow> 'x + 'v"
  F_mul :: "'v \<Rightarrow> 'v \<Rightarrow> 'x + 'v"
  F_truediv :: "'v \<Rightarrow> 'v \<Rightarrow> 'x + 'v"
  F_mod :: "'v \<Rightarrow> 'v \<Rightarrow> 'x + 'v"
  F_rshift :: "'v \<Rightarrow> 'v \<Rightarrow> 'x + 'v"
  F_and :: "'v \<Rightarrow> 'v \<Rightarrow> 'x + 'v"
  F_add :: "'v \<Rightarrow> 'v \<Rightarrow> 'x + 'v"
  F_lt_int :: "'v \<Rightarrow> int \<Rightarrow> 'x + bool"
  F_gt_int :: "'v \<Rightarrow> int \<Rightarrow> 'x + bool"
  F_ne_int :: "'v \<Rightarrow> int \<Rightarrow> 'x + bool"
  F_ge :: "'v \<Rightarrow> 'v \<Rightarrow> 'x + bool"
  F_MAX_UINT256 :: 'v
  F_ZERO :: 'v

definition lib :: "'x + 'a \<Rightarrow> 'x failure + 'a" where
  "lib m = (case m of Inl x \<Rightarrow> Inl (Raised x) | Inr v \<Rightarrow> Inr v)"

definition and_then :: "'e + 'a \<Rightarrow> ('a \<Rightarrow> 'e + 'b) \<Rightarrow> 'e + 'b" where
  "and_then m f = (case m of Inl e \<Rightarrow> Inl e | Inr v \<Rightarrow> f v)"

text \<open>
  \<^verbatim>\<open>mul_shift\<close>: \<^verbatim>\<open>Fxp(value * (Fxp(multiply_by)) >> Fxp(128))\<close>, in the order of evaluation.
\<close>

definition mul_shift_on :: "('v, 'x) fxpmath \<Rightarrow> 'v \<Rightarrow> string \<Rightarrow> 'x failure + 'v" where
  "mul_shift_on ops v multiply_by =
    and_then (lib (F_str ops multiply_by)) (\<lambda>c.
    and_then (lib (F_mul ops v c)) (\<lambda>p.
    and_then (lib (F_int ops 128)) (\<lambda>s.
    and_then (lib (F_rshift ops p s)) (\<lambda>number.
    lib (F_copy ops number)))))"

text \<open>
  The test \<^verbatim>\<open>abs_tick & Fxp(mask) != 0\<close> and one statement
  \<^verbatim>\<open>if abs_tick & Fxp(mask) != 0: ratio = mul_shift(ratio, constant)\<close>.
\<close>

definition bit_test_on :: "('v, 'x) fxpmath \<Rightarrow> 'v \<Rightarrow> string \<Rightarrow> 'x failure + bool" where
  "bit_test_on ops abs_tick bit_mask =
    and_then (lib (F_str ops bit_mask)) (\<lambda>m.
    and_then (lib (F_and ops abs_tick m)) (\<lambda>a.
    lib (F_ne_int ops a 0)))"

definition ladder_step_on ::
  "('v, 'x) fxpmath \<Rightarrow> 'v \<Rightarrow> string \<Rightarrow> string \<Rightarrow> 'v \<Rightarrow> 'x failure + 'v" where
  "ladder_step_on ops abs_tick bit_mask multiply_by ratio =
    and_then (bit_test_on ops abs_tick bit_mask) (\<lambda>b.
    if b then mul_shift_on ops ratio multiply_by else Inr ratio)"

text \<open>
  Lines 77 to 116 of \<^verbatim>\<open>get_sqrt_ratio_at_tick\<close>, statement by statement, with the literals
  of the source.
\<close>

definition ratio_ladder_on :: "('v, 'x) fxpmath \<Rightarrow> 'v \<Rightarrow> 'x failure + 'v" where
  "ratio_ladder_on ops abs_tick =
    and_then (bit_test_on ops abs_tick ''0x1'') (\<lambda>b.
    and_then (if b then lib (F_str ops ''0xfffcb933bd6fad37aa2d162d1a594001'')
              else lib (F_str ops ''0x100000000000000000000000000000000'')) (\<lambda>ratio.
    and_then (ladder_step_on ops abs_tick ''0x2''
                ''0xfff97272373d413259a46990580e213a'' ratio) (\<lambda>ratio.
    and_then (ladder_step_on ops abs_tick ''0x4''
                ''0xfff2e50f5f656932ef12357cf3c7fdcc'' ratio) (\<lambda>ratio.
    and_then (ladder_step_on ops abs_tick ''0x8''
                ''0xffe5caca7e10e4e61c3624eaa0941cd0'' ratio) (\<lambda>ratio.
    and_then (ladder_step_on ops abs_tick ''0x10''
                ''0xffcb9843d60f6159c9db58835c926644'' ratio) (\<lambda>ratio.
    and_then (ladder_step_on ops abs_tick ''0x20''
                ''0xff973b41fa98c081472e6896dfb254c0'' ratio) (\<lambda>ratio.
    and_then (ladder_step_on ops abs_tick ''0x40''
                ''0xff2ea16466c96a3843ec78b326b52861'' ratio) (\<lambda>ratio.
    and_then (ladder_step_on ops abs_tick ''0x80''
                ''0xfe5dee046a99a2a811c461f1969c3053'' ratio) (\<lambda>ratio.
    and_then (ladder_step_on ops abs_tick ''0x100''
                ''0xfcbe86c7900a88aedcffc83b479aa3a4'' ratio) (\<lambda>ratio.
    and_then (ladder_step_on ops abs_tick ''0x200''
                ''0xf987a7253ac413176f2b074cf7815e54'' ratio) (\<lambda>ratio.
    and_then (ladder_step_on ops abs_tick ''0x400''
                ''0xf3392b0822b70005940c7a398e4b70f3'' ratio) (\<lambda>ratio.
    and_then (ladder_step_on ops abs_tick ''0x800''
                ''0xe7159475a2c29b7443b29c7fa6e889d9'' ratio) (\<lambda>ratio.
    and_then (ladder_step_on ops abs_tick ''0x1000''
                ''0xd097f3bdfd2022b8845ad8f792aa5825'' ratio) (\<lambda>ratio.
    and_then (ladder_step_on ops abs_tick ''0x2000''
                ''0xa9f746462d870fdf8a65dc1f90e061e5'' ratio) (\<lambda>ratio.
    and_then (ladder_step_on ops abs_tick ''0x4000''
                ''0x70d869a156d2a1b890bb3df62baf32f7'' ratio) (\<lambda>ratio.
    and_then (ladder_step_on ops abs_tick ''0x8000''
                ''0x31be135f97d08fd981231505542fcfa6'' ratio) (\<lambda>ratio.
    and_then (ladder_step_on ops abs_tick ''0x10000''
                ''0x9aa508b5b7a84e1c677de54f3e99bc9'' ratio) (\<lambda>ratio.
    and_then (ladder_step_on ops abs_tick ''0x20000''
                ''0x5d6af8dedb81196699c329225ee604'' ratio) (\<lambda>ratio.
    and_then (ladder_step_on ops abs_tick ''0x40000''
                ''0x2216e584f5fa1ea926041bedfe98'' ratio) (\<lambda>ratio.
    and_then (ladder_step_on ops abs_tick ''0x80000''
                ''0x48a170391f7dc42444e8fa2'' ratio) (\<lambda>ratio.
    Inr ratio)))))))))))))))))))))"

text \<open>
  \<^verbatim>\<open>get_sqrt_ratio_at_tick\<close>: the absolute value, the ladder, the reciprocal for a positive
  tick, and the conversion. No statement compares \<^verbatim>\<open>tick\<close> with \<^verbatim>\<open>MIN_TICK\<close> or
  \<^verbatim>\<open>MAX_TICK\<close>.
\<close>

definition get_sqrt_ratio_at_tick_on :: "('v, 'x) fxpmath \<Rightarrow> 'v \<Rightarrow> 'x failure + 'v" where
  "get_sqrt_ratio_at_tick_on ops tick =
    and_then (lib (F_lt_int ops tick 0)) (\<lambda>negative.
    and_then (if negative then lib (F_mul_int ops tick (- 1)) else Inr tick) (\<lambda>abs_tick.
    and_then (ratio_ladder_on ops abs_tick) (\<lambda>ratio.
    and_then (lib (F_gt_int ops tick 0)) (\<lambda>positive.
    and_then (if positive then lib (F_truediv ops (F_MAX_UINT256 ops) ratio)
              else Inr ratio) (\<lambda>ratio.
    and_then (lib (F_int ops (2 ^ 32))) (\<lambda>q32.
    and_then (lib (F_mod ops ratio q32)) (\<lambda>m.
    and_then (lib (F_ge ops m (F_ZERO ops))) (\<lambda>c.
    if c then and_then (lib (F_truediv ops ratio q32)) (\<lambda>d. lib (F_add ops d (F_ZERO ops)))
    else lib (F_truediv ops ratio q32)))))))))"


text \<open>
  The operations on exact integers: a hexadecimal literal is the integer it writes, and
  the operations are those of the integer reading above. With them the parametrised
  body is that reading (\<open>get_sqrt_ratio_at_tick_on_exact\<close> below).
\<close>

definition hex_digit :: "char \<Rightarrow> int" where
  "hex_digit c = int (length (takeWhile (\<lambda>d. d \<noteq> c) ''0123456789abcdef''))"

definition of_hex :: "string \<Rightarrow> int" where
  "of_hex s = foldl (\<lambda>a c. 16 * a + hex_digit c) 0 (drop 2 s)"

definition exact_ops :: "(int, error) fxpmath" where
  "exact_ops =
    \<lparr>F_int = Inr, F_str = (\<lambda>s. Inr (of_hex s)), F_copy = Inr,
     F_mul_int = (\<lambda>a n. Inr (a * n)), F_mul = (\<lambda>a b. Inr (a * b)),
     F_truediv = fxp_div, F_mod = fxp_mod, F_rshift = fxp_rshift,
     F_and = (\<lambda>a b. Inr (a AND b)), F_add = (\<lambda>a b. Inr (a + b)),
     F_lt_int = (\<lambda>a n. Inr (a < n)), F_gt_int = (\<lambda>a n. Inr (a > n)),
     F_ne_int = (\<lambda>a n. Inr (a \<noteq> n)), F_ge = (\<lambda>a b. Inr (a \<ge> b)),
     F_MAX_UINT256 = MAX_UINT256, F_ZERO = ZERO\<rparr>"

section \<open>The ladder as a fold\<close>

text \<open>
  For the proofs, the nineteen conditional multiplications of \<open>ratio_ladder\<close> are read as
  one fold over the table of their masks and constants. \<open>table_ok\<close> is the numeric
  condition on such a table under which consecutive ticks keep a relative distance of
  at least \<open>1 / 20002\<close>; \<open>lad_low\<close> is the least value the fold can reach.
\<close>

definition ladder_table :: "(int \<times> int) list" where
  "ladder_table =
    [(0x2, 0xfff97272373d413259a46990580e213a),
     (0x4, 0xfff2e50f5f656932ef12357cf3c7fdcc),
     (0x8, 0xffe5caca7e10e4e61c3624eaa0941cd0),
     (0x10, 0xffcb9843d60f6159c9db58835c926644),
     (0x20, 0xff973b41fa98c081472e6896dfb254c0),
     (0x40, 0xff2ea16466c96a3843ec78b326b52861),
     (0x80, 0xfe5dee046a99a2a811c461f1969c3053),
     (0x100, 0xfcbe86c7900a88aedcffc83b479aa3a4),
     (0x200, 0xf987a7253ac413176f2b074cf7815e54),
     (0x400, 0xf3392b0822b70005940c7a398e4b70f3),
     (0x800, 0xe7159475a2c29b7443b29c7fa6e889d9),
     (0x1000, 0xd097f3bdfd2022b8845ad8f792aa5825),
     (0x2000, 0xa9f746462d870fdf8a65dc1f90e061e5),
     (0x4000, 0x70d869a156d2a1b890bb3df62baf32f7),
     (0x8000, 0x31be135f97d08fd981231505542fcfa6),
     (0x10000, 0x9aa508b5b7a84e1c677de54f3e99bc9),
     (0x20000, 0x5d6af8dedb81196699c329225ee604),
     (0x40000, 0x2216e584f5fa1ea926041bedfe98),
     (0x80000, 0x48a170391f7dc42444e8fa2)]"

definition ladder_step :: "int \<Rightarrow> int \<Rightarrow> int \<Rightarrow> int \<Rightarrow> int" where
  "ladder_step n m c r = (if n AND m \<noteq> 0 then mul_shift r c else r)"

fun lad :: "(int \<times> int) list \<Rightarrow> int \<Rightarrow> int \<Rightarrow> int" where
  "lad [] n r = r"
| "lad ((m, c) # t) n r = lad t n (ladder_step n m c r)"

fun table_ok :: "nat \<Rightarrow> (int \<times> int) list \<Rightarrow> int \<Rightarrow> int \<Rightarrow> bool" where
  "table_ok k [] lo e = True"
| "table_ok k ((m, c) # t) lo e =
    (m = 2 ^ k \<and> 0 \<le> c \<and> c \<le> 2 ^ 128 \<and> 20002 * c \<le> 20001 * (lo + e + 1)
     \<and> table_ok (Suc k) t (mul_shift lo c) (e + 1))"

fun lad_low :: "(int \<times> int) list \<Rightarrow> int \<Rightarrow> int" where
  "lad_low [] lo = lo"
| "lad_low ((m, c) # t) lo = lad_low t (mul_shift lo c)"

section \<open>Properties\<close>

subsection \<open>The tick ladder on exact integers\<close>

text \<open>
  The lemmas of this subsection are about the reading of \<^verbatim>\<open>Fxp\<close> as an exact integer.
  They say what the statements of the source compute on the arithmetic that the
  specification prescribes; they are not statements about the code on \<^verbatim>\<open>fxpmath\<close>.
  On exact integers tick 0 gives \<open>2 ^ 96\<close>, every tick gives a value, and the values are
  strictly increasing on the tick domain.
\<close>

lemma get_sqrt_ratio_at_tick_zero:
  "get_sqrt_ratio_at_tick 0 = Inr 79228162514264337593543950336
   \<and> (79228162514264337593543950336 :: int) = 2 ^ 96"
  by code_simp

lemma ratio_ladder_lad:
  "ratio_ladder n =
     lad ladder_table n
       (if n AND 1 \<noteq> 0 then 0xfffcb933bd6fad37aa2d162d1a594001
        else 0x100000000000000000000000000000000)"
  apply (unfold ratio_ladder_def)
  apply (fold ladder_step_def)
  apply (unfold Let_def ladder_table_def lad.simps)
  apply (rule refl)
  done

lemma table_ok_ladder:
  "table_ok 1 ladder_table 0xfffcb933bd6fad37aa2d162d1a594001 0"
  by code_simp

lemma lad_low_ladder:
  "lad_low ladder_table 0xfffcb933bd6fad37aa2d162d1a594001 = 5800441176149320"
  by code_simp

lemma and_mask_bit: "((n::int) AND 2 ^ k \<noteq> 0) = bit n k"
  by (simp add: bit_iff_and_push_bit_not_eq_0)

lemma mul_shift_div: "mul_shift r c = r * c div 2 ^ 128"
  by (simp add: mul_shift_def drop_bit_eq_div)

lemma mul_shift_mono: "0 \<le> c \<Longrightarrow> r \<le> r' \<Longrightarrow> mul_shift r c \<le> mul_shift r' c"
  unfolding mul_shift_div by (intro zdiv_mono1 mult_right_mono) simp_all

lemma mul_shift_nonneg: "0 \<le> r \<Longrightarrow> 0 \<le> c \<Longrightarrow> 0 \<le> mul_shift r c"
  unfolding mul_shift_div by (simp add: pos_imp_zdiv_nonneg_iff)

lemma mul_shift_le:
  assumes "0 \<le> r" "c \<le> 2 ^ 128"
  shows "mul_shift r c \<le> r"
proof -
  have "r * c \<le> r * 2 ^ 128" using assms by (intro mult_left_mono) simp_all
  then have "r * c div 2 ^ 128 \<le> r * 2 ^ 128 div 2 ^ 128" by (intro zdiv_mono1) simp_all
  then show ?thesis by (simp add: mul_shift_div)
qed

lemma mul_shift_le_const:
  assumes "0 \<le> c" "r \<le> 2 ^ 128"
  shows "mul_shift r c \<le> c"
proof -
  have "r * c \<le> 2 ^ 128 * c" using assms by (intro mult_right_mono) simp_all
  then have "r * c div 2 ^ 128 \<le> 2 ^ 128 * c div 2 ^ 128" by (intro zdiv_mono1) simp_all
  then show ?thesis by (simp add: mul_shift_div)
qed

lemma mul_shift_gap:
  assumes c: "0 \<le> c" "c \<le> 2 ^ 128" and e: "0 \<le> e"
    and g: "20002 * r' \<le> 20001 * (r + e)"
  shows "20002 * mul_shift r' c \<le> 20001 * (mul_shift r c + e + 1)"
proof -
  define Q :: int where "Q = 2 ^ 128"
  define a where "a = r' * c div Q"
  define b where "b = r * c div Q"
  have Qpos: "0 < Q" by (simp add: Q_def)
  have a: "a * Q \<le> r' * c"
    unfolding a_def using Qpos by (metis div_mult_mod_eq le_add_same_cancel1 pos_mod_sign)
  have b: "r * c < (b + 1) * Q"
  proof -
    have "r * c = b * Q + r * c mod Q" by (simp add: b_def)
    moreover have "r * c mod Q < Q" using Qpos by simp
    ultimately show ?thesis by (simp add: algebra_simps)
  qed
  have "20002 * (a * Q) \<le> 20002 * (r' * c)" using a by simp
  also have "\<dots> = (20002 * r') * c" by simp
  also have "\<dots> \<le> (20001 * (r + e)) * c" using g c(1) by (intro mult_right_mono)
  also have "\<dots> = 20001 * (r * c) + 20001 * (e * c)" by (simp add: algebra_simps)
  also have "\<dots> \<le> 20001 * ((b + 1) * Q) + 20001 * (e * Q)"
  proof -
    have "e * c \<le> e * Q" using e c(2) unfolding Q_def by (intro mult_left_mono)
    with b show ?thesis by simp
  qed
  also have "\<dots> = (20001 * (b + e + 1)) * Q" by (simp add: algebra_simps)
  finally have "(20002 * a) * Q \<le> (20001 * (b + e + 1)) * Q" by (simp add: algebra_simps)
  then have "20002 * a \<le> 20001 * (b + e + 1)" using Qpos by (simp only: mult_le_cancel_right_pos)
  then show ?thesis by (simp add: mul_shift_div a_def b_def Q_def)
qed

lemma lad_bounds:
  "table_ok k t lo e \<Longrightarrow> 0 \<le> lo \<Longrightarrow> lo \<le> r \<Longrightarrow> r \<le> 2 ^ 128
    \<Longrightarrow> lad_low t lo \<le> lad t n r \<and> lad t n r \<le> r \<and> 0 \<le> lad_low t lo"
proof (induction t arbitrary: k lo e r)
  case Nil
  then show ?case by simp
next
  case (Cons mc t)
  obtain m c where mc: "mc = (m, c)" by (cases mc)
  from Cons.prems(1) have c: "0 \<le> c" "c \<le> 2 ^ 128"
    and ok: "table_ok (Suc k) t (mul_shift lo c) (e + 1)"
    by (simp_all add: mc)
  define r1 where "r1 = ladder_step n m c r"
  have r0: "0 \<le> r" using Cons.prems by simp
  have lo1: "0 \<le> mul_shift lo c" using Cons.prems(2) c by (simp add: mul_shift_nonneg)
  have "mul_shift lo c \<le> mul_shift r c" using c Cons.prems(3) by (simp add: mul_shift_mono)
  moreover have "mul_shift lo c \<le> lo" using Cons.prems(2) c by (simp add: mul_shift_le)
  moreover have "mul_shift r c \<le> r" using r0 c by (simp add: mul_shift_le)
  ultimately have r1: "mul_shift lo c \<le> r1" "r1 \<le> r"
    using Cons.prems(3) by (auto simp: r1_def ladder_step_def)
  then have "r1 \<le> 2 ^ 128" using Cons.prems(4) by simp
  from Cons.IH [OF ok lo1 r1(1) this]
  show ?case using r1(2) by (simp add: mc r1_def)
qed

lemma take_bit_Suc_less_cases:
  fixes n n' :: int
  assumes "take_bit (Suc k) n < take_bit (Suc k) n'"
  shows "(bit n k = bit n' k \<and> take_bit k n < take_bit k n') \<or> (\<not> bit n k \<and> bit n' k)"
proof -
  have n: "take_bit (Suc k) n = take_bit k n + (if bit n k then 2 ^ k else 0)"
    by (simp add: take_bit_Suc_from_most push_bit_eq_mult)
  have n': "take_bit (Suc k) n' = take_bit k n' + (if bit n' k then 2 ^ k else 0)"
    by (simp add: take_bit_Suc_from_most push_bit_eq_mult)
  define a a' where "a = take_bit k n" and "a' = take_bit k n'"
  define p :: int where "p = 2 ^ k"
  have b: "0 \<le> a" "a < p" "0 \<le> a'" "a' < p"
    by (simp_all add: a_def a'_def p_def)
  have "a + (if bit n k then p else 0) < a' + (if bit n' k then p else 0)"
    using assms unfolding n n' a_def a'_def p_def .
  then have "(bit n k = bit n' k \<and> a < a') \<or> (\<not> bit n k \<and> bit n' k)"
    using b by (auto split: if_splits)
  then show ?thesis by (simp add: a_def a'_def)
qed

lemma lad_gap:
  "table_ok k t lo e \<Longrightarrow> 0 \<le> e \<Longrightarrow> 0 \<le> lo \<Longrightarrow> lo \<le> r \<Longrightarrow> r \<le> 2 ^ 128
    \<Longrightarrow> lo \<le> r' \<Longrightarrow> r' \<le> 2 ^ 128
    \<Longrightarrow> (take_bit k n < take_bit k n' \<Longrightarrow> 20002 * r' \<le> 20001 * (r + e))
    \<Longrightarrow> take_bit (k + length t) n < take_bit (k + length t) n'
    \<Longrightarrow> 20002 * lad t n' r' \<le> 20001 * (lad t n r + e + int (length t))"
proof (induction t arbitrary: k lo e r r')
  case Nil
  then show ?case by simp
next
  case (Cons mc t)
  obtain m c where mc: "mc = (m, c)" by (cases mc)
  from Cons.prems(1) have m: "m = 2 ^ k" and c: "0 \<le> c" "c \<le> 2 ^ 128"
    and cross: "20002 * c \<le> 20001 * (lo + e + 1)"
    and ok: "table_ok (Suc k) t (mul_shift lo c) (e + 1)"
    by (simp_all add: mc)
  define r1 where "r1 = (if bit n k then mul_shift r c else r)"
  define r1' where "r1' = (if bit n' k then mul_shift r' c else r')"
  have r0: "0 \<le> r" "0 \<le> r'" using Cons.prems by simp_all
  have lo1: "0 \<le> mul_shift lo c" using Cons.prems(3) c by (simp add: mul_shift_nonneg)
  have lole: "mul_shift lo c \<le> lo" using Cons.prems(3) c by (simp add: mul_shift_le)
  have b1: "mul_shift lo c \<le> r1" "r1 \<le> 2 ^ 128"
    using mul_shift_mono [OF c(1) Cons.prems(4)] mul_shift_le [OF r0(1) c(2)] lole Cons.prems(4,5)
    by (auto simp: r1_def)
  have b1': "mul_shift lo c \<le> r1'" "r1' \<le> 2 ^ 128"
    using mul_shift_mono [OF c(1) Cons.prems(6)] mul_shift_le [OF r0(2) c(2)] lole Cons.prems(6,7)
    by (auto simp: r1'_def)
  have step: "20002 * r1' \<le> 20001 * (r1 + (e + 1))"
    if less: "take_bit (Suc k) n < take_bit (Suc k) n'"
  proof -
    from take_bit_Suc_less_cases [OF less]
    consider (same) "bit n k = bit n' k" "take_bit k n < take_bit k n'"
      | (cross) "\<not> bit n k" "bit n' k" by blast
    then show ?thesis
    proof cases
      case same
      from Cons.prems(8) [OF same(2)] have g: "20002 * r' \<le> 20001 * (r + e)" .
      show ?thesis
      proof (cases "bit n k")
        case True
        with same(1) have "bit n' k" by simp
        with True mul_shift_gap [OF c Cons.prems(2) g] show ?thesis
          by (simp add: r1_def r1'_def)
      next
        case False
        with same(1) have "\<not> bit n' k" by simp
        with False g show ?thesis by (simp add: r1_def r1'_def)
      qed
    next
      case cross
      have "r1' \<le> c" using cross(2) mul_shift_le_const [OF c(1) Cons.prems(7)]
        by (simp add: r1'_def)
      moreover have "lo \<le> r1" using cross(1) Cons.prems(4) by (simp add: r1_def)
      ultimately show ?thesis using \<open>20002 * c \<le> 20001 * (lo + e + 1)\<close> by simp
    qed
  qed
  have len: "take_bit (Suc k + length t) n < take_bit (Suc k + length t) n'"
    using Cons.prems(9) by simp
  have e1: "0 \<le> e + 1" using Cons.prems(2) by simp
  from Cons.IH [OF ok e1 lo1 b1 b1' step len]
  show ?case by (simp add: mc m and_mask_bit ladder_step_def r1_def r1'_def algebra_simps)
qed

lemma ratio_ladder_bounds:
  "5800441176149320 \<le> ratio_ladder n \<and> ratio_ladder n \<le> 2 ^ 128"
proof -
  define r :: int where
    "r = (if n AND 1 \<noteq> 0 then 0xfffcb933bd6fad37aa2d162d1a594001
          else 0x100000000000000000000000000000000)"
  have r: "0xfffcb933bd6fad37aa2d162d1a594001 \<le> r" "r \<le> 2 ^ 128"
    by (simp_all add: r_def)
  have "lad_low ladder_table 0xfffcb933bd6fad37aa2d162d1a594001 \<le> lad ladder_table n r
        \<and> lad ladder_table n r \<le> r"
    using lad_bounds [OF table_ok_ladder _ r] by simp
  then show ?thesis
    using r(2) unfolding lad_low_ladder ratio_ladder_lad r_def by linarith
qed

lemma ratio_ladder_gap:
  assumes "take_bit 20 n < take_bit 20 n'"
  shows "20002 * ratio_ladder n' \<le> 20001 * (ratio_ladder n + 19)"
proof -
  define r :: int where
    "r = (if n AND 1 \<noteq> 0 then 0xfffcb933bd6fad37aa2d162d1a594001
          else 0x100000000000000000000000000000000)"
  define r' :: int where
    "r' = (if n' AND 1 \<noteq> 0 then 0xfffcb933bd6fad37aa2d162d1a594001
          else 0x100000000000000000000000000000000)"
  have r: "0xfffcb933bd6fad37aa2d162d1a594001 \<le> r" "r \<le> 2 ^ 128"
    by (simp_all add: r_def)
  have r': "0xfffcb933bd6fad37aa2d162d1a594001 \<le> r'" "r' \<le> 2 ^ 128"
    by (simp_all add: r'_def)
  have base: "20002 * r' \<le> 20001 * (r + 0)" if "take_bit 1 n < take_bit 1 n'"
  proof -
    from that have "take_bit (Suc 0) n < take_bit (Suc 0) n'" by simp
    from take_bit_Suc_less_cases [OF this] have "\<not> bit n 0 \<and> bit n' 0" by simp
    then have "n AND 1 = 0" "n' AND 1 \<noteq> 0"
      using and_mask_bit [of n 0] and_mask_bit [of n' 0] by simp_all
    then show ?thesis by (simp add: r_def r'_def)
  qed
  have l: "length ladder_table = 19" by (simp add: ladder_table_def)
  have len: "take_bit (1 + length ladder_table) n < take_bit (1 + length ladder_table) n'"
    unfolding l using assms by simp
  have "20002 * lad ladder_table n' r'
        \<le> 20001 * (lad ladder_table n r + 0 + int (length ladder_table))"
    by (rule lad_gap [OF table_ok_ladder _ _ r r' base len]) simp_all
  then show ?thesis
    unfolding ratio_ladder_lad r_def r'_def l by simp
qed

lemma get_sqrt_ratio_at_tick_eq:
  "get_sqrt_ratio_at_tick t =
     Inr (if t > 0 then (MAX_UINT256 div ratio_ladder t) div 2 ^ 32
          else ratio_ladder (- t) div 2 ^ 32)"
proof -
  have "ratio_ladder t \<noteq> 0" using ratio_ladder_bounds [of t] by linarith
  then show ?thesis
    by (simp add: get_sqrt_ratio_at_tick_def Let_def bind_def fxp_div_def fxp_mod_def ZERO_def)
qed

lemma sqrt_ratio_nonpositive_mono:
  assumes "t1 < t2" "t2 \<le> 0" "- (2 ^ 20) < t1"
  shows "ratio_ladder (- t1) div 2 ^ 32 < ratio_ladder (- t2) div 2 ^ 32"
proof -
  define x where "x = ratio_ladder (- t2)"
  define y where "y = ratio_ladder (- t1)"
  have "take_bit 20 (- t2) = - t2" "take_bit 20 (- t1) = - t1"
    using assms by (simp_all add: take_bit_int_eq_self)
  then have "take_bit 20 (- t2) < take_bit 20 (- t1)" using assms by simp
  from ratio_ladder_gap [OF this] have g: "20002 * y \<le> 20001 * (x + 19)"
    by (simp add: x_def y_def)
  have "5800441176149320 \<le> x" using ratio_ladder_bounds [of "- t2"] by (simp add: x_def)
  with g have "y + 2 ^ 32 \<le> x" by simp
  then have "(y + 2 ^ 32) div 2 ^ 32 \<le> x div 2 ^ 32" by (intro zdiv_mono1) simp_all
  then show ?thesis by (simp add: x_def y_def)
qed

lemma sqrt_ratio_positive_mono:
  assumes "0 < t1" "t1 < t2" "t2 < 2 ^ 20"
  shows "(MAX_UINT256 div ratio_ladder t1) div 2 ^ 32 < (MAX_UINT256 div ratio_ladder t2) div 2 ^ 32"
proof -
  define M :: int where "M = MAX_UINT256"
  define x where "x = ratio_ladder t1"
  define y where "y = ratio_ladder t2"
  define q where "q = M div x"
  have "take_bit 20 t1 = t1" "take_bit 20 t2 = t2"
    using assms by (simp_all add: take_bit_int_eq_self)
  then have "take_bit 20 t1 < take_bit 20 t2" using assms by simp
  from ratio_ladder_gap [OF this] have g: "20002 * y \<le> 20001 * (x + 19)"
    by (simp add: x_def y_def)
  have x: "5800441176149320 \<le> x" "x \<le> 2 ^ 128"
    using ratio_ladder_bounds [of t1] by (simp_all add: x_def)
  have y: "5800441176149320 \<le> y"
    using ratio_ladder_bounds [of t2] by (simp_all add: y_def)
  have M0: "0 \<le> M" by (simp add: M_def MAX_UINT256_def)
  have q0: "0 \<le> q" unfolding q_def using M0 x by (simp add: pos_imp_zdiv_nonneg_iff)
  have qx: "q * x \<le> M"
  proof -
    have "M = q * x + M mod x" by (simp add: q_def)
    moreover have "0 \<le> M mod x" using x by simp
    ultimately show ?thesis by linarith
  qed
  have qle: "q \<le> M div 5800441176149320"
    unfolding q_def using M0 x(1) by (intro zdiv_mono2) simp_all
  have "20002 * ((q + 2 ^ 32) * y) = (q + 2 ^ 32) * (20002 * y)" by simp
  also have "\<dots> \<le> (q + 2 ^ 32) * (20001 * (x + 19))"
    using g q0 by (intro mult_left_mono) simp_all
  also have "\<dots> = 20001 * (q * x) + 20001 * (19 * q + 2 ^ 32 * x + 19 * 2 ^ 32)"
    by (simp add: algebra_simps)
  also have "\<dots> \<le> 20001 * M + M"
  proof -
    have "20001 * (19 * q + 2 ^ 32 * x + 19 * 2 ^ 32) \<le> M"
      using qle x(2) by (simp add: M_def MAX_UINT256_def)
    with qx show ?thesis by simp
  qed
  finally have "(q + 2 ^ 32) * y \<le> M" by simp
  then have "(q + 2 ^ 32) * y div y \<le> M div y"
    using y by (intro zdiv_mono1) simp_all
  then have "q + 2 ^ 32 \<le> M div y"
    using y by simp
  then have "(q + 2 ^ 32) div 2 ^ 32 \<le> (M div y) div 2 ^ 32" by (intro zdiv_mono1) simp_all
  then show ?thesis by (simp add: q_def x_def y_def M_def)
qed

lemma sqrt_ratio_cross:
  assumes "t1 \<le> 0" "0 < t2" "t2 < 2 ^ 20"
  shows "ratio_ladder (- t1) div 2 ^ 32 < (MAX_UINT256 div ratio_ladder t2) div 2 ^ 32"
proof -
  define M :: int where "M = MAX_UINT256"
  define x where "x = ratio_ladder (- t1)"
  define y where "y = ratio_ladder t2"
  have "take_bit 20 t2 = t2" using assms by (simp add: take_bit_int_eq_self)
  then have "take_bit 20 (0::int) < take_bit 20 t2" using assms by simp
  from ratio_ladder_gap [OF this] have "20002 * y \<le> 20001 * (ratio_ladder 0 + 19)"
    by (simp add: y_def)
  moreover have "ratio_ladder 0 \<le> 2 ^ 128" using ratio_ladder_bounds [of 0] by simp
  ultimately have g: "20002 * y \<le> 20001 * (2 ^ 128 + 19)" by simp
  have y: "5800441176149320 \<le> y" using ratio_ladder_bounds [of t2] by (simp add: y_def)
  have "x \<le> 2 ^ 128" using ratio_ladder_bounds [of "- t1"] by (simp add: x_def)
  then have "x div 2 ^ 32 \<le> 2 ^ 128 div 2 ^ 32" by (intro zdiv_mono1) simp_all
  then have x96: "x div 2 ^ 32 \<le> 2 ^ 96" by simp
  have "(2 ^ 128 + 2 ^ 32) * y \<le> M" using g by (simp add: M_def MAX_UINT256_def)
  then have "(2 ^ 128 + 2 ^ 32) * y div y \<le> M div y"
    using y by (intro zdiv_mono1) simp_all
  then have "2 ^ 128 + 2 ^ 32 \<le> M div y" using y by simp
  then have "(2 ^ 128 + 2 ^ 32) div 2 ^ 32 \<le> (M div y) div 2 ^ 32"
    by (intro zdiv_mono1) simp_all
  then have "2 ^ 96 + 1 \<le> (M div y) div 2 ^ 32" by simp
  with x96 show ?thesis by (simp add: x_def y_def M_def)
qed

lemma get_sqrt_ratio_at_tick_strictly_increasing:
  assumes "MIN_TICK \<le> t1" "t1 < t2" "t2 \<le> MAX_TICK"
  shows "\<exists>v1 v2. get_sqrt_ratio_at_tick t1 = Inr v1 \<and> get_sqrt_ratio_at_tick t2 = Inr v2
           \<and> v1 < v2"
proof -
  have lo: "- (2 ^ 20) < t1" using assms(1) by (simp add: MIN_TICK_def)
  have hi: "t2 < 2 ^ 20" using assms(3) by (simp add: MAX_TICK_def)
  consider (neg) "t2 \<le> 0" | (pos) "0 < t1" | (cross) "t1 \<le> 0" "0 < t2" by linarith
  then show ?thesis
  proof cases
    case neg
    with sqrt_ratio_nonpositive_mono [OF assms(2) neg lo] assms(2) show ?thesis
      by (simp add: get_sqrt_ratio_at_tick_eq)
  next
    case pos
    with sqrt_ratio_positive_mono [OF pos assms(2) hi] assms(2) show ?thesis
      by (simp add: get_sqrt_ratio_at_tick_eq)
  next
    case cross
    with sqrt_ratio_cross [OF cross hi] show ?thesis
      by (simp add: get_sqrt_ratio_at_tick_eq)
  qed
qed

lemma get_sqrt_ratio_at_tick_strictly_increasing_at_bounds:
  "MIN_TICK \<le> - 887272 \<and> (- 887272 :: int) < 887272 \<and> 887272 \<le> MAX_TICK
   \<and> (\<exists>v1 v2. get_sqrt_ratio_at_tick (- 887272) = Inr v1
         \<and> get_sqrt_ratio_at_tick 887272 = Inr v2 \<and> v1 < v2)"
  using get_sqrt_ratio_at_tick_strictly_increasing [of "- 887272" 887272]
  by (simp add: MIN_TICK_def MAX_TICK_def)

lemma get_sqrt_ratio_at_tick_total: "\<exists>v. get_sqrt_ratio_at_tick tick = Inr v"
  by (simp add: get_sqrt_ratio_at_tick_eq)

subsection \<open>The two embeddings on exact integers\<close>

text \<open>
  With the operations on exact integers, the body over the operations of \<^verbatim>\<open>Fxp\<close> is the
  integer reading of \<^verbatim>\<open>get_sqrt_ratio_at_tick\<close>: the two embeddings are the same
  statements.
\<close>

lemma of_hex_literals:
  "of_hex ''0xfffcb933bd6fad37aa2d162d1a594001'' = 0xfffcb933bd6fad37aa2d162d1a594001"
  "of_hex ''0x1'' = 0x1"
  "of_hex ''0x100000000000000000000000000000000'' = 0x100000000000000000000000000000000"
  "of_hex ''0x2'' = 0x2"
  "of_hex ''0xfff97272373d413259a46990580e213a'' = 0xfff97272373d413259a46990580e213a"
  "of_hex ''0x4'' = 0x4"
  "of_hex ''0xfff2e50f5f656932ef12357cf3c7fdcc'' = 0xfff2e50f5f656932ef12357cf3c7fdcc"
  "of_hex ''0x8'' = 0x8"
  "of_hex ''0xffe5caca7e10e4e61c3624eaa0941cd0'' = 0xffe5caca7e10e4e61c3624eaa0941cd0"
  "of_hex ''0x10'' = 0x10"
  "of_hex ''0xffcb9843d60f6159c9db58835c926644'' = 0xffcb9843d60f6159c9db58835c926644"
  "of_hex ''0x20'' = 0x20"
  "of_hex ''0xff973b41fa98c081472e6896dfb254c0'' = 0xff973b41fa98c081472e6896dfb254c0"
  "of_hex ''0x40'' = 0x40"
  "of_hex ''0xff2ea16466c96a3843ec78b326b52861'' = 0xff2ea16466c96a3843ec78b326b52861"
  "of_hex ''0x80'' = 0x80"
  "of_hex ''0xfe5dee046a99a2a811c461f1969c3053'' = 0xfe5dee046a99a2a811c461f1969c3053"
  "of_hex ''0x100'' = 0x100"
  "of_hex ''0xfcbe86c7900a88aedcffc83b479aa3a4'' = 0xfcbe86c7900a88aedcffc83b479aa3a4"
  "of_hex ''0x200'' = 0x200"
  "of_hex ''0xf987a7253ac413176f2b074cf7815e54'' = 0xf987a7253ac413176f2b074cf7815e54"
  "of_hex ''0x400'' = 0x400"
  "of_hex ''0xf3392b0822b70005940c7a398e4b70f3'' = 0xf3392b0822b70005940c7a398e4b70f3"
  "of_hex ''0x800'' = 0x800"
  "of_hex ''0xe7159475a2c29b7443b29c7fa6e889d9'' = 0xe7159475a2c29b7443b29c7fa6e889d9"
  "of_hex ''0x1000'' = 0x1000"
  "of_hex ''0xd097f3bdfd2022b8845ad8f792aa5825'' = 0xd097f3bdfd2022b8845ad8f792aa5825"
  "of_hex ''0x2000'' = 0x2000"
  "of_hex ''0xa9f746462d870fdf8a65dc1f90e061e5'' = 0xa9f746462d870fdf8a65dc1f90e061e5"
  "of_hex ''0x4000'' = 0x4000"
  "of_hex ''0x70d869a156d2a1b890bb3df62baf32f7'' = 0x70d869a156d2a1b890bb3df62baf32f7"
  "of_hex ''0x8000'' = 0x8000"
  "of_hex ''0x31be135f97d08fd981231505542fcfa6'' = 0x31be135f97d08fd981231505542fcfa6"
  "of_hex ''0x10000'' = 0x10000"
  "of_hex ''0x9aa508b5b7a84e1c677de54f3e99bc9'' = 0x9aa508b5b7a84e1c677de54f3e99bc9"
  "of_hex ''0x20000'' = 0x20000"
  "of_hex ''0x5d6af8dedb81196699c329225ee604'' = 0x5d6af8dedb81196699c329225ee604"
  "of_hex ''0x40000'' = 0x40000"
  "of_hex ''0x2216e584f5fa1ea926041bedfe98'' = 0x2216e584f5fa1ea926041bedfe98"
  "of_hex ''0x80000'' = 0x80000"
  "of_hex ''0x48a170391f7dc42444e8fa2'' = 0x48a170391f7dc42444e8fa2"
  by code_simp+

lemma and_then_Inr: "and_then (Inr v) f = f v"
  by (simp add: and_then_def)

lemma lib_Inr: "lib (Inr v) = Inr v"
  by (simp add: lib_def)

lemma if_Inr: "(if c then Inr a else Inr b) = Inr (if c then a else b)"
  by simp

lemma mul_shift_on_exact: "mul_shift_on exact_ops v s = Inr (mul_shift v (of_hex s))"
  by (simp add: mul_shift_on_def exact_ops_def and_then_Inr lib_Inr fxp_rshift_def mul_shift_def)

lemma bit_test_on_exact: "bit_test_on exact_ops n s = Inr (n AND of_hex s \<noteq> 0)"
  by (simp add: bit_test_on_def exact_ops_def and_then_Inr lib_Inr)

lemma ladder_step_on_exact:
  "ladder_step_on exact_ops n m c r = Inr (ladder_step n (of_hex m) (of_hex c) r)"
  by (simp add: ladder_step_on_def bit_test_on_exact mul_shift_on_exact and_then_Inr
      ladder_step_def)

lemma str_exact: "lib (F_str exact_ops s) = Inr (of_hex s)"
  by (simp add: exact_ops_def lib_Inr)

lemma ratio_ladder_on_exact: "ratio_ladder_on exact_ops n = Inr (ratio_ladder n)"
  apply (unfold ratio_ladder_on_def ladder_step_on_exact bit_test_on_exact str_exact if_Inr
      and_then_Inr of_hex_literals)
  apply (unfold ratio_ladder_lad ladder_table_def lad.simps)
  apply (rule refl)
  done

lemma exact_ops_fields:
  "F_int exact_ops n = Inr n"
  "F_mul_int exact_ops a n = Inr (a * n)"
  "F_truediv exact_ops a b = fxp_div a b"
  "F_mod exact_ops a b = fxp_mod a b"
  "F_add exact_ops a b = Inr (a + b)"
  "F_lt_int exact_ops a n = Inr (a < n)"
  "F_gt_int exact_ops a n = Inr (a > n)"
  "F_ge exact_ops a b = Inr (a \<ge> b)"
  "F_MAX_UINT256 exact_ops = MAX_UINT256"
  "F_ZERO exact_ops = ZERO"
  by (simp_all add: exact_ops_def)

lemma get_sqrt_ratio_at_tick_on_exact:
  "get_sqrt_ratio_at_tick_on exact_ops t = lib (get_sqrt_ratio_at_tick t)"
  by (simp add: get_sqrt_ratio_at_tick_on_def get_sqrt_ratio_at_tick_def ratio_ladder_on_exact
      exact_ops_fields and_then_def bind_def lib_def fxp_div_def fxp_mod_def Let_def ZERO_def)

subsection \<open>Ticks outside the domain\<close>














subsection \<open>The conversion to 96 fractional bits\<close>

text \<open>
  Claim C5 at tick -1. The accumulator is \<open>ratio_ladder 1\<close>; its low 32 bits are not zero,
  and the function returns the quotient by \<open>2 ^ 32\<close> rounded down, with no unit added.
\<close>

theorem get_sqrt_ratio_at_tick_rounds_down:
  "ratio_ladder 1 mod 2 ^ 32 = 442056705
   \<and> ratio_ladder 1 div 2 ^ 32 = 79224201403219477170569942573
   \<and> get_sqrt_ratio_at_tick (- 1) = Inr 79224201403219477170569942573"
  by code_simp

subsection \<open>The round trip\<close>

text \<open>
  The translation of \<^verbatim>\<open>int(math.log(x, 2))\<close>: on a positive integer, \<open>floor_log2\<close> is the
  integer part of the real binary logarithm.
\<close>

lemma floor_log2_log: "1 \<le> x \<Longrightarrow> floor_log2 x = \<lfloor>log 2 (real_of_int x)\<rfloor>"
proof (induction x rule: floor_log2.induct)
  case (1 x)
  show ?case
  proof (cases "x < 2")
    case True
    with 1 have "x = 1" by simp
    then show ?thesis by (simp add: floor_log2.simps)
  next
    case False
    then have d: "1 \<le> x div 2" by simp
    have n: "(1::nat) < 2" "0 < nat x" "0 < nat x div 2" using False by auto
    have "\<lfloor>log 2 (real (nat x))\<rfloor> = \<lfloor>log 2 (real (nat x div 2))\<rfloor> + 1"
      using floor_log_div [of 2 "nat x"] n by simp
    moreover have "real (nat x) = real_of_int x" using False by simp
    moreover have "real (nat x div 2) = real_of_int (x div 2)"
    proof -
      have "nat x div 2 = nat (x div 2)" using False by (simp add: nat_div_distrib)
      then show ?thesis using d by simp
    qed
    ultimately have "\<lfloor>log 2 (real_of_int x)\<rfloor> = \<lfloor>log 2 (real_of_int (x div 2))\<rfloor> + 1"
      by simp
    with 1(1) [OF False d] False show ?thesis
      by (simp add: floor_log2.simps [of x])
  qed
qed

text \<open>
  Claim C1 at tick 0. \<^verbatim>\<open>get_sqrt_ratio_at_tick(0)\<close> is \<open>2 ^ 96\<close>; shifted left by 32 bits its
  most significant bit is bit 128, which the test \<^verbatim>\<open>msb > Fxp(128)\<close> sends to the branch
  that shifts left by \<open>127 - 128\<close>. The round trip raises and returns no tick. The same
  happens at tick 13863, whereas ticks -1 and 13864 (whose most significant bits are 127
  and 129) come back.
\<close>

theorem round_trip_raises_at_tick_zero:
  "get_sqrt_ratio_at_tick 0 = Inr (2 ^ 96)
   \<and> most_significant_bit (push_bit 32 (2 ^ 96)) = Inr 128
   \<and> bind (get_sqrt_ratio_at_tick 0) get_tick_at_sqrt_ratio = Inl ValueError
   \<and> bind (get_sqrt_ratio_at_tick 13863) get_tick_at_sqrt_ratio = Inl ValueError
   \<and> bind (get_sqrt_ratio_at_tick (- 1)) get_tick_at_sqrt_ratio = Inr (- 1)
   \<and> bind (get_sqrt_ratio_at_tick 13864) get_tick_at_sqrt_ratio = Inr 13864"
  by code_simp

subsection \<open>Rounding division on exact integers\<close>

lemma mul_div_rounding_up_eq:
  "mul_div_rounding_up a b d =
    (if d = 0 then Inl DivisionByZero
     else Inr (if (a * b) mod d \<noteq> 0 then a * b div d + 1 else a * b div d))"
  by (simp add: mul_div_rounding_up_def bind_def fxp_div_def fxp_mod_def ZERO_def ONE_def)

text \<open>
  On exact integers with floor division, \<^verbatim>\<open>mul_div_rounding_up\<close> is the floor of the
  quotient when the denominator divides the product and that floor plus one otherwise.
  The source divides with \<^verbatim>\<open>/\<close> and tests no denominator, so this is a statement about
  the integer reading only.
\<close>

lemma mul_div_rounding_up_floor:
  "(d \<noteq> 0 \<and> d dvd a * b \<longrightarrow>
      mul_div_rounding_up a b d = Inr \<lfloor>real_of_int (a * b) / real_of_int d\<rfloor>)
   \<and> (d \<noteq> 0 \<and> \<not> d dvd a * b \<longrightarrow>
      mul_div_rounding_up a b d = Inr (\<lfloor>real_of_int (a * b) / real_of_int d\<rfloor> + 1))
   \<and> mul_div_rounding_up a b 0 = Inl DivisionByZero
   \<and> mul_div_rounding_up 100 3 7 = Inr 43"
proof -
  have fl: "\<lfloor>real_of_int (a * b) / real_of_int d\<rfloor> = a * b div d"
    by (rule floor_divide_of_int_eq)
  show ?thesis
    unfolding fl by (simp add: mul_div_rounding_up_eq mod_eq_0_iff_dvd)
qed

lemma mul_div_rounding_up_floor_at_100_3_7:
  "(7 :: int) \<noteq> 0 \<and> \<not> (7 :: int) dvd 100 * 3
   \<and> mul_div_rounding_up 100 3 7 = Inr (\<lfloor>real_of_int (100 * 3) / real_of_int 7\<rfloor> + 1)
   \<and> (3 :: int) \<noteq> 0 \<and> (3 :: int) dvd 6 * 2
   \<and> mul_div_rounding_up 6 2 3 = Inr \<lfloor>real_of_int (6 * 2) / real_of_int 3\<rfloor>"
  using mul_div_rounding_up_floor [of 7 100 3] mul_div_rounding_up_floor [of 3 6 2]
  by simp

subsection \<open>Amount deltas\<close>

text \<open>
  Claim C7. \<^verbatim>\<open>invert_ratio_if_needed\<close> returns \<^verbatim>\<open>None\<close>, not the ordered pair, so on all
  arguments \<^verbatim>\<open>get_amount_0_delta\<close> and \<^verbatim>\<open>get_amount_1_delta\<close> raise \<^verbatim>\<open>TypeError\<close> at the
  unpacking and compute no amount.
\<close>

theorem amount_deltas_raise:
  "invert_ratio_if_needed a b = None
   \<and> get_amount_0_delta a b l r = Inl TypeError
   \<and> get_amount_1_delta a b l r = Inl TypeError"
  by (simp add: get_amount_0_delta_def get_amount_1_delta_def invert_ratio_if_needed_def)

subsection \<open>Pool and Position\<close>

lemma entities_name_unbound:
  "entities_name ''get_token_1_price'' r = Inl (NameError ''get_token_1_price'')"
  "entities_name ''Q192'' r = Inl (NameError ''Q192'')"
  by (simp_all add: entities_name_def entities_globals_def)

lemma Pool_init_raises: "\<exists>e. Pool_init a b c d e' f g = Inl e"
  by (auto simp: Pool_init_def bind_def entities_name_unbound split: sum.splits)

text \<open>
  Claim C10. On every combination of arguments \<^verbatim>\<open>Pool.__init__\<close> raises, so no \<^verbatim>\<open>Pool\<close>
  is produced, and no \<^verbatim>\<open>Position\<close> over a pool that the constructor was to produce; on
  arguments that pass the assertions the error is the \<^verbatim>\<open>NameError\<close> of the unbound name
  \<^verbatim>\<open>get_token_1_price\<close>.
\<close>

theorem Pool_init_never_returns:
  "(\<exists>e. Pool_init a b c d e' f g = Inl e)
   \<and> (\<exists>e. bind (Pool_init a b c d e' f g) (\<lambda>p. Position_init (PPool p) lower upper liq)
          = Inl e)
   \<and> Pool_init (PToken t0) (PToken t1) (PInt fe) (PFxp sq) (PWad w) (PInt tc) (PList ts)
        = Inl (NameError ''get_token_1_price'')"
proof -
  obtain e where e: "Pool_init a b c d e' f g = Inl e"
    using Pool_init_raises by blast
  have "Pool_init (PToken t0) (PToken t1) (PInt fe) (PFxp sq) (PWad w) (PInt tc) (PList ts)
          = Inl (NameError ''get_token_1_price'')"
    by (simp add: Pool_init_def bind_def entities_name_unbound assert_Token_def assert_int_def
        assert_Fxp_def assert_Wad_def assert_List_def)
  then show ?thesis using e by (simp add: bind_def)
qed

text \<open>
  Claim C6 at the position of the test suite, which is within its range. The first
  argument of the call is \<^verbatim>\<open>get_sqrt_ratio_at_tick(self.tick_lower)\<close>, not the current
  price of the pool, and \<^verbatim>\<open>tick_lower\<close> is an \<^verbatim>\<open>int\<close>, which the assertion of
  \<^verbatim>\<open>get_sqrt_ratio_at_tick\<close> refuses: \<^verbatim>\<open>amount_in_token_0\<close> raises. \<^verbatim>\<open>mint_amounts\<close> raises
  on the attribute \<^verbatim>\<open>_mint_amount\<close>.
\<close>

theorem amount_in_token_0_within_range_raises:
  "tick_lower example_position \<le> tick_current (pool example_position)
   \<and> tick_current (pool example_position) < tick_upper example_position
   \<and> amount_in_token_0 example_position = Inl AssertionError
   \<and> mint_amounts example_position = Inl (AttributeError ''_mint_amount'')"
  by (simp add: example_position_def example_pool_def amount_in_token_0_def mint_amounts_def
      get_sqrt_ratio_at_tick_call_def assert_Fxp_def bind_def Position_attribute_def
      Position_attributes_def)

subsection \<open>Slippage bounds\<close>

text \<open>
  Claim C9. For a tolerance strictly between 0 and 1, \<^verbatim>\<open>_ratios_after_slippage\<close> returns
  no bounds: its first statement calls \<^verbatim>\<open>Pool.get_token_0_price\<close>, which reads the name
  \<^verbatim>\<open>Q192\<close> that the module does not bind.
\<close>

theorem ratios_after_slippage_raises:
  "0 < s \<Longrightarrow> s < 1 \<Longrightarrow>
     ratios_after_slippage sqrt_as_Fxp self s = Inl (NameError ''Q192'')"
  by (simp add: ratios_after_slippage_def get_token_0_price_def entities_name_unbound bind_def)

theorem ratios_after_slippage_raises_witness:
  "(0 :: real) < 1 / 2 \<and> (1 / 2 :: real) < 1
   \<and> ratios_after_slippage (\<lambda>n d. Inl ValueError) example_position (1 / 2)
        = Inl (NameError ''Q192'')"
  using ratios_after_slippage_raises [of "1 / 2" "\<lambda>n d. Inl ValueError" example_position]
  by simp

end
